theory Spec2Isabelle
  imports Main
begin

section \<open>The header \<^verbatim>\<open>src/editor/include/editor.h\<close> as data\<close>

text \<open>
  The repository consists of one C header, \<^verbatim>\<open>editor.h\<close>: five include directives,
  two typedefs, one macro and seven function prototypes, the last two under the comment
  \<^verbatim>\<open>// debugging functions\<close>. It has no function body. The header is embedded as the
  list of its lines, each with the C types it writes; every property below is computed
  from that list.
\<close>

subsection \<open>C types, expressions and declarations\<close>

text \<open>
  The type syntax a declaration of the header can write: \<^verbatim>\<open>void\<close>, a type name
  (a typedef name or a name of the host frameworks), a pointer \<^verbatim>\<open>T *\<close>, and a qualified
  type. The qualifiers are \<^verbatim>\<open>const\<close> and the two nullability annotations of the
  compiler the included frameworks are written for (\<^verbatim>\<open>_Nullable\<close>, \<^verbatim>\<open>_Nonnull\<close>).
\<close>

datatype qualifier = QConst | QNullable | QNonnull

datatype ctype =
    Void
  | Named string
  | Ptr ctype
  | Qual qualifier ctype

text \<open>The expressions a macro body of the header is made of.\<close>

datatype cexpr =
    Alignof ctype
  | Paren cexpr

text \<open>A parameter has a type and may have a name (\<^verbatim>\<open>renderer_get_val(Renderer)\<close> has none).\<close>

record param =
  pname :: "string option"
  ptype :: ctype

record proto =
  fname :: string
  ret :: ctype
  params :: "param list"

datatype decl =
    Include string
  | Typedef ctype string
  | Define string cexpr
  | Proto proto
  | Comment string

abbreviation arg :: "ctype \<Rightarrow> string \<Rightarrow> param" where
  "arg t n \<equiv> \<lparr>pname = Some n, ptype = t\<rparr>"

abbreviation unnamed_arg :: "ctype \<Rightarrow> param" where
  "unnamed_arg t \<equiv> \<lparr>pname = None, ptype = t\<rparr>"

subsection \<open>The header, line by line\<close>

definition renderer_create :: proto where
  "renderer_create =
    \<lparr>fname = ''renderer_create'', ret = Named ''Renderer'',
     params = [arg (Named ''id'') ''view'', arg (Named ''id'') ''device'']\<rparr>"

definition renderer_draw :: proto where
  "renderer_draw =
    \<lparr>fname = ''renderer_draw'', ret = Named ''Renderer'',
     params = [arg (Named ''Renderer'') ''renderer'', arg (Named ''id'') ''view'']\<rparr>"

definition renderer_resize :: proto where
  "renderer_resize =
    \<lparr>fname = ''renderer_resize'', ret = Void,
     params = [arg (Named ''Renderer'') ''renderer'', arg (Named ''CGSize'') ''new_size'']\<rparr>"

definition renderer_handle_keydown :: proto where
  "renderer_handle_keydown =
    \<lparr>fname = ''renderer_handle_keydown'', ret = Void,
     params = [arg (Named ''Renderer'') ''renderer'', arg (Ptr (Named ''NSEvent'')) ''event'']\<rparr>"

definition renderer_handle_scroll :: proto where
  "renderer_handle_scroll =
    \<lparr>fname = ''renderer_handle_scroll'', ret = Void,
     params = [arg (Named ''Renderer'') ''renderer'', arg (Named ''CGFloat'') ''dx'',
               arg (Named ''CGFloat'') ''dy'', arg (Named ''NSEventPhase'') ''phase'']\<rparr>"

definition renderer_insert_text :: proto where
  "renderer_insert_text =
    \<lparr>fname = ''renderer_insert_text'', ret = Void,
     params = [arg (Named ''Renderer'') ''renderer'',
               arg (Ptr (Qual QConst (Named ''char''))) ''text'',
               arg (Named ''size_t'') ''len'']\<rparr>"

definition renderer_get_val :: proto where
  "renderer_get_val =
    \<lparr>fname = ''renderer_get_val'', ret = Named ''size_t'',
     params = [unnamed_arg (Named ''Renderer'')]\<rparr>"

definition debug_marker :: decl where
  "debug_marker = Comment ''debugging functions''"

definition editor_h :: "decl list" where
  "editor_h =
    [Include ''AppKit/AppKit.h'',
     Include ''Cocoa/Cocoa.h'',
     Include ''CoreGraphics/CoreGraphics.h'',
     Include ''MetalKit/MetalKit.h'',
     Include ''objc/runtime.h'',
     Typedef (Ptr Void) ''Renderer'',
     Typedef (Ptr Void) ''Editor'',
     Define ''ARENA_ALIGN'' (Paren (Alignof (Named ''max_align_t''))),
     Proto renderer_create,
     Proto renderer_draw,
     Proto renderer_resize,
     Proto renderer_handle_keydown,
     Proto renderer_handle_scroll,
     debug_marker,
     Proto renderer_insert_text,
     Proto renderer_get_val]"

subsection \<open>Reading the header\<close>

primrec protos_of :: "decl list \<Rightarrow> proto list" where
  "protos_of [] = []"
| "protos_of (d # ds) = (case d of Proto p \<Rightarrow> p # protos_of ds | _ \<Rightarrow> protos_of ds)"

primrec typedef_names :: "decl list \<Rightarrow> string list" where
  "typedef_names [] = []"
| "typedef_names (d # ds) =
     (case d of Typedef t n \<Rightarrow> n # typedef_names ds | _ \<Rightarrow> typedef_names ds)"

primrec macros_of :: "decl list \<Rightarrow> (string \<times> cexpr) list" where
  "macros_of [] = []"
| "macros_of (d # ds) =
     (case d of Define n e \<Rightarrow> (n, e) # macros_of ds | _ \<Rightarrow> macros_of ds)"

text \<open>
  What a line declares: a kind and a name. Include directives and comments declare
  nothing of the header's own.
\<close>

datatype entity = Handle_Type string | Constant string | Function string

primrec declared :: "decl list \<Rightarrow> entity list" where
  "declared [] = []"
| "declared (d # ds) =
     (case d of
        Include f \<Rightarrow> declared ds
      | Typedef t n \<Rightarrow> Handle_Type n # declared ds
      | Define n e \<Rightarrow> Constant n # declared ds
      | Proto p \<Rightarrow> Function (fname p) # declared ds
      | Comment c \<Rightarrow> declared ds)"

text \<open>
  The comment \<^verbatim>\<open>// debugging functions\<close> heads the last part of the header: the
  prototypes before it are the operational entry points, those after it the debug ones.
\<close>

definition operational :: "decl list \<Rightarrow> proto list" where
  "operational ds = protos_of (takeWhile (\<lambda>d. d \<noteq> debug_marker) ds)"

definition debugging :: "decl list \<Rightarrow> proto list" where
  "debugging ds = protos_of (dropWhile (\<lambda>d. d \<noteq> debug_marker) ds)"

definition lookup :: "decl list \<Rightarrow> string \<Rightarrow> proto option" where
  "lookup ds n = find (\<lambda>p. fname p = n) (protos_of ds)"

text \<open>
  Typedef names resolve as the compiler resolves them: the environment is built in
  declaration order, each typedef's type resolved against the typedefs before it.
\<close>

primrec resolve :: "(string \<times> ctype) list \<Rightarrow> ctype \<Rightarrow> ctype" where
  "resolve env Void = Void"
| "resolve env (Named n) = (case map_of env n of Some t \<Rightarrow> t | None \<Rightarrow> Named n)"
| "resolve env (Ptr t) = Ptr (resolve env t)"
| "resolve env (Qual q t) = Qual q (resolve env t)"

primrec typedef_env :: "(string \<times> ctype) list \<Rightarrow> decl list \<Rightarrow> (string \<times> ctype) list" where
  "typedef_env env [] = env"
| "typedef_env env (d # ds) =
     (case d of
        Typedef t n \<Rightarrow> typedef_env ((n, resolve env t) # env) ds
      | _ \<Rightarrow> typedef_env env ds)"

definition env_h :: "(string \<times> ctype) list" where
  "env_h = typedef_env [] editor_h"

text \<open>The types of a signature (result first), and the type names they write.\<close>

definition sig_types :: "proto \<Rightarrow> ctype list" where
  "sig_types p = ret p # map ptype (params p)"

primrec type_names :: "ctype \<Rightarrow> string list" where
  "type_names Void = []"
| "type_names (Named n) = [n]"
| "type_names (Ptr t) = type_names t"
| "type_names (Qual q t) = type_names t"

definition mentions :: "string \<Rightarrow> proto \<Rightarrow> bool" where
  "mentions n p = (n \<in> set (concat (map type_names (sig_types p))))"

definition takes :: "string \<Rightarrow> proto \<Rightarrow> bool" where
  "takes n p = (Named n \<in> set (map ptype (params p)))"

section \<open>Host types\<close>

text \<open>
  Modelled from the spec: the types of the included host frameworks that the header uses
  and does not declare (\<^verbatim>\<open>id\<close>, \<^verbatim>\<open>CGSize\<close>, \<^verbatim>\<open>NSEvent\<close>, \<^verbatim>\<open>CGFloat\<close>,
  \<^verbatim>\<open>NSEventPhase\<close>, \<^verbatim>\<open>size_t\<close>, \<^verbatim>\<open>char\<close>, \<^verbatim>\<open>max_align_t\<close>). The spec calls them
  "a view object, a device object (both opaque host-framework references)", "a 2D size
  value", "a key-event object", "dx: float, dy: float", "phase: enum" (a scroll-phase
  enumeration), "a size-typed value", "text: bytes", and "the platform's
  maximum-alignment scalar type".
\<close>

datatype host_kind =
    Object_Reference
  | Size_2D
  | Event_Object
  | Floating
  | Enumeration
  | Size_Integer
  | Byte
  | Max_Align_Scalar

definition host_kind :: "string \<Rightarrow> host_kind option" where
  "host_kind = map_of
    [(''id'', Object_Reference),
     (''CGSize'', Size_2D),
     (''NSEvent'', Event_Object),
     (''CGFloat'', Floating),
     (''NSEventPhase'', Enumeration),
     (''size_t'', Size_Integer),
     (''char'', Byte),
     (''max_align_t'', Max_Align_Scalar)]"

text \<open>
  What a written type stands for: a handle type of the header, a host type, a pointer to
  one, a read-only (const) one, or no value (\<^verbatim>\<open>void\<close>).
\<close>

datatype role =
    No_Value
  | Handle string
  | Host host_kind
  | Unknown string
  | Pointer_To role
  | Read_Only role

primrec classify :: "string list \<Rightarrow> ctype \<Rightarrow> role" where
  "classify hs Void = No_Value"
| "classify hs (Named n) =
     (if n \<in> set hs then Handle n
      else case host_kind n of Some k \<Rightarrow> Host k | None \<Rightarrow> Unknown n)"
| "classify hs (Ptr t) = Pointer_To (classify hs t)"
| "classify hs (Qual q t) = (if q = QConst then Read_Only (classify hs t) else classify hs t)"

definition classify_h :: "ctype \<Rightarrow> role" where
  "classify_h = classify (typedef_names editor_h)"

definition inputs :: "proto \<Rightarrow> (string option \<times> role) list" where
  "inputs p = map (\<lambda>q. (pname q, classify_h (ptype q))) (params p)"

definition result :: "proto \<Rightarrow> role" where
  "result p = classify_h (ret p)"

section \<open>The alignment constant\<close>

text \<open>
  The value of a macro body on a platform, the platform being given by the alignment it
  assigns to each type.
\<close>

primrec eval_cexpr :: "(ctype \<Rightarrow> nat) \<Rightarrow> cexpr \<Rightarrow> nat" where
  "eval_cexpr alignof (Alignof t) = alignof t"
| "eval_cexpr alignof (Paren e) = eval_cexpr alignof e"

definition macro_value :: "(ctype \<Rightarrow> nat) \<Rightarrow> decl list \<Rightarrow> string \<Rightarrow> nat option" where
  "macro_value alignof ds n = map_option (eval_cexpr alignof) (map_of (macros_of ds) n)"

section \<open>Status channels\<close>

text \<open>
  A signature can report failure in three ways: through its result, through a handle
  that is declared nullable, or through a parameter the callee writes a status into.
  A nullability annotation is one of the qualifiers \<^verbatim>\<open>_Nullable\<close> and \<^verbatim>\<open>_Nonnull\<close>
  anywhere in a type.
\<close>

primrec qualifiers :: "ctype \<Rightarrow> qualifier list" where
  "qualifiers Void = []"
| "qualifiers (Named n) = []"
| "qualifiers (Ptr t) = qualifiers t"
| "qualifiers (Qual q t) = q # qualifiers t"

definition nullability_annotated :: "ctype \<Rightarrow> bool" where
  "nullability_annotated t =
     (QNullable \<in> set (qualifiers t) \<or> QNonnull \<in> set (qualifiers t))"

text \<open>
  An out-parameter for a status is a pointer through which the callee can store one: a
  pointer to a writable pointer (as in \<^verbatim>\<open>NSError **\<close>) or to a writable scalar. Nothing is
  stored through \<^verbatim>\<open>void *\<close> or through a pointer to const, and a pointer to an object of
  the host framework is a reference to that object. A type name that is neither a
  typedef of the header nor a known host type counts as writable.
\<close>

primrec scalar_kind :: "host_kind \<Rightarrow> bool" where
  "scalar_kind Object_Reference = False"
| "scalar_kind Size_2D = False"
| "scalar_kind Event_Object = False"
| "scalar_kind Floating = True"
| "scalar_kind Enumeration = True"
| "scalar_kind Size_Integer = True"
| "scalar_kind Byte = True"
| "scalar_kind Max_Align_Scalar = True"

primrec status_cell :: "ctype \<Rightarrow> bool" where
  "status_cell Void = False"
| "status_cell (Named n) = (case host_kind n of Some k \<Rightarrow> scalar_kind k | None \<Rightarrow> True)"
| "status_cell (Ptr t) = True"
| "status_cell (Qual q t) = (q \<noteq> QConst \<and> status_cell t)"

definition status_out_param :: "(string \<times> ctype) list \<Rightarrow> ctype \<Rightarrow> bool" where
  "status_out_param env t = (case resolve env t of Ptr u \<Rightarrow> status_cell u | _ \<Rightarrow> False)"

section \<open>Handle types are not distinguished\<close>










section \<open>Properties of the declared interface\<close>

subsection \<open>The declared surface\<close>

text \<open>
  Claim C1. The header declares exactly ten things: the handle types \<^verbatim>\<open>Renderer\<close> and
  \<^verbatim>\<open>Editor\<close>, the constant \<^verbatim>\<open>ARENA_ALIGN\<close>, and seven functions. Five functions stand
  before the debugging comment (create, draw, resize, handle_keydown, handle_scroll) and
  two after it (insert_text, get_val). Both handle types resolve to \<^verbatim>\<open>void *\<close>, which shows
  no field, and each of the seven functions has the \<^verbatim>\<open>Renderer\<close> handle in its signature:
  \<^verbatim>\<open>renderer_create\<close> as its result, the six others as their first parameter.
\<close>

theorem interface_surface:
  "declared editor_h =
     [Handle_Type ''Renderer'', Handle_Type ''Editor'', Constant ''ARENA_ALIGN'',
      Function ''renderer_create'', Function ''renderer_draw'', Function ''renderer_resize'',
      Function ''renderer_handle_keydown'', Function ''renderer_handle_scroll'',
      Function ''renderer_insert_text'', Function ''renderer_get_val'']
   \<and> operational editor_h =
     [renderer_create, renderer_draw, renderer_resize, renderer_handle_keydown,
      renderer_handle_scroll]
   \<and> debugging editor_h = [renderer_insert_text, renderer_get_val]
   \<and> protos_of editor_h = operational editor_h @ debugging editor_h
   \<and> length (protos_of editor_h) = 7
   \<and> map (resolve env_h \<circ> Named) (typedef_names editor_h) = [Ptr Void, Ptr Void]
   \<and> map fst (macros_of editor_h) = [''ARENA_ALIGN'']
   \<and> filter (mentions ''Renderer'') (protos_of editor_h) = protos_of editor_h
   \<and> ret renderer_create = Named ''Renderer''
   \<and> map (\<lambda>p. map ptype (take 1 (params p))) (tl (protos_of editor_h)) =
        replicate 6 [Named ''Renderer'']"
  by code_simp

subsection \<open>Signatures\<close>

text \<open>
  Claim C2. \<^verbatim>\<open>renderer_draw\<close> takes a \<^verbatim>\<open>Renderer\<close> and a view (an object reference of the
  host framework) and returns a \<^verbatim>\<open>Renderer\<close>. The functions of the header that return
  \<^verbatim>\<open>void\<close> are exactly resize, handle_keydown, handle_scroll and insert_text; the only
  other function that takes a \<^verbatim>\<open>Renderer\<close> and returns a value is the accessor
  \<^verbatim>\<open>renderer_get_val\<close>.
\<close>

theorem draw_returns_renderer:
  "lookup editor_h ''renderer_draw'' = Some renderer_draw
   \<and> inputs renderer_draw =
       [(Some ''renderer'', Handle ''Renderer''), (Some ''view'', Host Object_Reference)]
   \<and> result renderer_draw = Handle ''Renderer''
   \<and> map fname (filter (\<lambda>p. ret p = Void) (protos_of editor_h)) =
       [''renderer_resize'', ''renderer_handle_keydown'', ''renderer_handle_scroll'',
        ''renderer_insert_text'']
   \<and> map fname (filter (\<lambda>p. takes ''Renderer'' p \<and> ret p \<noteq> Void) (protos_of editor_h)) =
       [''renderer_draw'', ''renderer_get_val'']"
  by code_simp

text \<open>
  Claim C3. The result types of the seven functions are: \<^verbatim>\<open>Renderer\<close> itself for create
  and draw, \<^verbatim>\<open>size_t\<close> itself (the host's size integer) for get_val, and \<^verbatim>\<open>void\<close> for the
  four others. No type of any signature carries a nullability annotation, and no
  parameter of any function is an out-parameter for a status.
\<close>

theorem no_status_channel:
  "map (\<lambda>p. (fname p, ret p)) (protos_of editor_h) =
     [(''renderer_create'', Named ''Renderer''),
      (''renderer_draw'', Named ''Renderer''),
      (''renderer_resize'', Void),
      (''renderer_handle_keydown'', Void),
      (''renderer_handle_scroll'', Void),
      (''renderer_insert_text'', Void),
      (''renderer_get_val'', Named ''size_t'')]
   \<and> map result [renderer_create, renderer_draw, renderer_get_val] =
       [Handle ''Renderer'', Handle ''Renderer'', Host Size_Integer]
   \<and> filter (\<lambda>p. list_ex nullability_annotated (sig_types p)) (protos_of editor_h) = []
   \<and> filter (\<lambda>p. list_ex (status_out_param env_h) (map ptype (params p)))
        (protos_of editor_h) = []"
  by code_simp

text \<open>
  Claim C4. \<^verbatim>\<open>renderer_handle_scroll\<close> has four parameters, in this order: the
  \<^verbatim>\<open>Renderer\<close> handle, \<^verbatim>\<open>dx\<close> and \<^verbatim>\<open>dy\<close> of the host's floating-point type, and
  \<^verbatim>\<open>phase\<close> of the host's scroll-phase enumeration. It returns \<^verbatim>\<open>void\<close>.
\<close>

theorem handle_scroll_signature:
  "lookup editor_h ''renderer_handle_scroll'' = Some renderer_handle_scroll
   \<and> inputs renderer_handle_scroll =
       [(Some ''renderer'', Handle ''Renderer''), (Some ''dx'', Host Floating),
        (Some ''dy'', Host Floating), (Some ''phase'', Host Enumeration)]
   \<and> map ptype (params renderer_handle_scroll) =
       [Named ''Renderer'', Named ''CGFloat'', Named ''CGFloat'', Named ''NSEventPhase'']
   \<and> length (params renderer_handle_scroll) = 4
   \<and> ret renderer_handle_scroll = Void"
  by code_simp

subsection \<open>The value of the alignment constant\<close>

text \<open>
  Claim C5. On every platform, \<^verbatim>\<open>ARENA_ALIGN\<close> is defined and its value is the alignment
  of \<^verbatim>\<open>max_align_t\<close>, the platform's maximum-alignment scalar type.
\<close>

theorem arena_align_value:
  "macro_value alignof editor_h ''ARENA_ALIGN'' = Some (alignof (Named ''max_align_t''))
   \<and> host_kind ''max_align_t'' = Some Max_Align_Scalar"
  by (simp add: macro_value_def editor_h_def debug_marker_def host_kind_def)

subsection \<open>Handles\<close>

text \<open>
  Claim C6. \<^verbatim>\<open>Editor\<close> is declared as a type, and no signature writes it: the type names
  of the seven signatures, in order, are the nineteen below, and no function has
  \<^verbatim>\<open>Editor\<close> as a parameter type or as its result type.
\<close>

theorem editor_handle_unused:
  "typedef_names editor_h = [''Renderer'', ''Editor'']
   \<and> concat (map (\<lambda>p. concat (map type_names (sig_types p))) (protos_of editor_h)) =
       [''Renderer'', ''id'', ''id'',
        ''Renderer'', ''Renderer'', ''id'',
        ''Renderer'', ''CGSize'',
        ''Renderer'', ''NSEvent'',
        ''Renderer'', ''CGFloat'', ''CGFloat'', ''NSEventPhase'',
        ''Renderer'', ''char'', ''size_t'',
        ''size_t'', ''Renderer'']
   \<and> filter (mentions ''Editor'') (protos_of editor_h) = []
   \<and> filter (takes ''Editor'') (protos_of editor_h) = []
   \<and> filter (\<lambda>p. ret p = Named ''Editor'') (protos_of editor_h) = []"
  by code_simp






end
